theory Spec2Isabelle
  imports Main "HOL-Library.Char_ord"
begin

section \<open>The links table\<close>

text \<open>
  The backend (\<^verbatim>\<open>src/tinylinkBackend/index.js\<close>) keeps every link as one row of the
  SQL table \<^verbatim>\<open>links\<close>. A row is a record; the table is the list of its rows, in
  insertion order. Timestamps are ticks of an abstract clock; the value of \<^verbatim>\<open>NOW()\<close>
  is a parameter of every operation that reads the clock.
\<close>

record link =
  code :: string
  target :: string
  clicks :: nat
  created_at :: nat
  last_clicked :: "nat option"

type_synonym links = "link list"

text \<open>
  The outcomes of the handlers that are not a success, named as the specification names
  them: \<^verbatim>\<open>400 target is required\<close> and \<^verbatim>\<open>400 invalid target URL\<close> are
  \<open>InvalidTarget\<close>, \<^verbatim>\<open>400 code must match [A-Za-z0-9]{6,8}\<close> is \<open>InvalidCode\<close>,
  \<^verbatim>\<open>409 code already exists\<close> is \<open>CodeConflict\<close>,
  \<^verbatim>\<open>500 failed to generate unique code, try again\<close> is \<open>CodeGenerationExhausted\<close>,
  \<^verbatim>\<open>404\<close> is \<open>NotFound\<close>, and the \<^verbatim>\<open>catch\<close> branch (\<^verbatim>\<open>500 server error\<close>) is
  \<open>StoreUnavailable\<close>.
\<close>

datatype error =
    InvalidTarget
  | InvalidCode
  | CodeConflict
  | CodeGenerationExhausted
  | NotFound
  | StoreUnavailable

subsection \<open>The SQL statements\<close>

text \<open>\<^verbatim>\<open>SELECT ... FROM links WHERE code = $1\<close>: the rows read; the table is not touched.\<close>

definition select_code :: "links \<Rightarrow> string \<Rightarrow> links" where
  "select_code rows c = filter (\<lambda>r. code r = c) rows"

abbreviation (input) rowCount :: "'a list \<Rightarrow> nat" where
  "rowCount q \<equiv> length q"

text \<open>
  Modelled from the spec: the schema of the table \<^verbatim>\<open>links\<close> is not part of the
  sources. The statement \<^verbatim>\<open>INSERT INTO links(code, target) VALUES ($1, $2) RETURNING ...\<close>
  names two columns only; the other three take the column defaults, which the
  specification gives as \<open>clicks = 0\<close>, \<open>created_at = now\<close>, \<open>last_clicked = null\<close>. The
  table has a uniqueness constraint on \<open>code\<close>; an insert that violates it raises
  (\<open>None\<close>). The counter is the specification's non-negative integer, without an upper
  bound.
\<close>

definition insert_link :: "links \<Rightarrow> string \<Rightarrow> string \<Rightarrow> nat \<Rightarrow> (link \<times> links) option" where
  "insert_link rows c t now =
     (if select_code rows c \<noteq> [] then None
      else (let row = \<lparr>code = c, target = t, clicks = 0, created_at = now, last_clicked = None\<rparr>
            in Some (row, rows @ [row])))"

text \<open>
  \<^verbatim>\<open>UPDATE links SET clicks = clicks + 1, last_clicked = NOW() WHERE code = $1 RETURNING target\<close>:
  one statement that rewrites every row with the code and returns the \<open>target\<close> of each
  rewritten row, together with the new table.
\<close>

definition update_visit :: "links \<Rightarrow> string \<Rightarrow> nat \<Rightarrow> string list \<times> links" where
  "update_visit rows c now =
     (let rows' = map (\<lambda>r. if code r = c
                            then r\<lparr>clicks := clicks r + 1, last_clicked := Some now\<rparr>
                            else r) rows
      in (map target (filter (\<lambda>r. code r = c) rows'), rows'))"

section \<open>Helpers\<close>

text \<open>
  \<^verbatim>\<open>const CODE_RE = /^[A-Za-z0-9]{6,8}$/\<close>: a character class of three ranges, repeated
  six to eight times, anchored at both ends of the input (there is no \<^verbatim>\<open>m\<close> flag).
\<close>

definition CODE_RE_class :: "(char \<times> char) list" where
  "CODE_RE_class = [(CHR ''A'', CHR ''Z''), (CHR ''a'', CHR ''z''), (CHR ''0'', CHR ''9'')]"

definition in_class :: "(char \<times> char) list \<Rightarrow> char \<Rightarrow> bool" where
  "in_class rs c = list_ex (\<lambda>(lo, hi). lo \<le> c \<and> c \<le> hi) rs"

definition CODE_RE_test :: "string \<Rightarrow> bool" where
  "CODE_RE_test s = (6 \<le> length s \<and> length s \<le> 8 \<and> list_all (in_class CODE_RE_class) s)"

text \<open>
  \<^verbatim>\<open>genCode\<close>. The source of randomness is the sequence \<open>rnd\<close>: \<open>rnd k\<close> is the value of
  \<^verbatim>\<open>Math.floor(Math.random() * chars.length)\<close> at the \<open>k\<close>-th draw, and \<open>pos\<close> counts the
  draws made so far. \<^verbatim>\<open>Math.random()\<close> lies in \<open>[0, 1)\<close>, so every draw is below
  \<open>length chars\<close>; that is the predicate \<open>draws_in_range\<close>. Reading a JavaScript string out
  of range gives \<^verbatim>\<open>undefined\<close>, which \<^verbatim>\<open>+=\<close> appends as the text \<^verbatim>\<open>undefined\<close>.
\<close>

definition chars :: string where
  "chars = ''ABCDEFGHIJKLMNOPQRSTUVWXYZabcdefghijklmnopqrstuvwxyz0123456789''"

definition charAt :: "string \<Rightarrow> nat \<Rightarrow> string" where
  "charAt s i = (if i < length s then [s ! i] else ''undefined'')"

definition genCode :: "nat \<Rightarrow> (nat \<Rightarrow> nat) \<Rightarrow> nat \<Rightarrow> string" where
  "genCode len rnd pos = fold (\<lambda>i out. out @ charAt chars (rnd (pos + i))) [0..<len] ''''"

definition draws_in_range :: "(nat \<Rightarrow> nat) \<Rightarrow> bool" where
  "draws_in_range rnd = (\<forall>k. rnd k < length chars)"

text \<open>
  A field of the JSON body is \<open>None\<close> when it is absent and \<open>Some s\<close> when it is the string
  \<open>s\<close>; \<^verbatim>\<open>!x\<close> holds of an absent field and of the empty string.
\<close>

definition truthy :: "string option \<Rightarrow> bool" where
  "truthy v = (case v of None \<Rightarrow> False | Some s \<Rightarrow> s \<noteq> [])"

section \<open>The operations\<close>

subsection \<open>Create: \<^verbatim>\<open>POST /api/links\<close>\<close>

definition maxAttempts :: nat where
  "maxAttempts = 10"

text \<open>
  The \<^verbatim>\<open>do ... while (attempts < maxAttempts)\<close> loop. It returns the last candidate, the
  counter \<open>attempts\<close> and the number of draws made.
\<close>

function gen_loop :: "links \<Rightarrow> (nat \<Rightarrow> nat) \<Rightarrow> nat \<Rightarrow> nat \<Rightarrow> string \<times> nat \<times> nat" where
  "gen_loop rows rnd pos attempts =
     (let finalCode = genCode 7 rnd pos in
      if rowCount (select_code rows finalCode) = 0 then (finalCode, attempts, pos + 7)
      else if attempts + 1 < maxAttempts then gen_loop rows rnd (pos + 7) (attempts + 1)
      else (finalCode, attempts + 1, pos + 7))"
  by pat_completeness auto
termination
  by (relation "measure (\<lambda>(rows, rnd, pos, attempts). maxAttempts - attempts)") auto

declare gen_loop.simps [simp del]

text \<open>
  The handler. \<open>isWebUri\<close> is the predicate of the package \<^verbatim>\<open>valid-url\<close>, which is not part
  of the repository; it is a parameter. The result is the response, the table and the
  number of draws made. The insert raises only on a violated constraint, which the
  \<^verbatim>\<open>catch\<close> branch turns into \<^verbatim>\<open>500 server error\<close>. The response field \<^verbatim>\<open>shortUrl\<close> is the
  base URL followed by the code of the returned row and is left out.
\<close>

definition insert_and_respond :: "links \<Rightarrow> nat \<Rightarrow> string \<Rightarrow> string \<Rightarrow> nat \<Rightarrow> (error + link) \<times> links \<times> nat" where
  "insert_and_respond rows pos finalCode t now =
     (case insert_link rows finalCode t now of
        None \<Rightarrow> (Inl StoreUnavailable, rows, pos)
      | Some (row, rows') \<Rightarrow> (Inr row, rows', pos))"

definition create :: "(string \<Rightarrow> bool) \<Rightarrow> (nat \<Rightarrow> nat) \<Rightarrow> nat \<Rightarrow> links \<Rightarrow> nat
    \<Rightarrow> string option \<Rightarrow> string option \<Rightarrow> (error + link) \<times> links \<times> nat" where
  "create isWebUri rnd now rows pos tgt cd =
     (if \<not> truthy tgt then (Inl InvalidTarget, rows, pos)
      else if \<not> isWebUri (the tgt) then (Inl InvalidTarget, rows, pos)
      else if truthy cd \<and> \<not> CODE_RE_test (the cd) then (Inl InvalidCode, rows, pos)
      else if \<not> truthy cd then
        (case gen_loop rows rnd pos 0 of (finalCode, attempts, pos') \<Rightarrow>
           if attempts \<ge> maxAttempts then (Inl CodeGenerationExhausted, rows, pos')
           else insert_and_respond rows pos' finalCode (the tgt) now)
      else if rowCount (select_code rows (the cd)) > 0 then (Inl CodeConflict, rows, pos)
      else insert_and_respond rows pos (the cd) (the tgt) now)"

subsection \<open>Redirect: \<^verbatim>\<open>GET /:code\<close>\<close>

text \<open>
  With the query flag \<^verbatim>\<open>test=1\<close> the handler answers with JSON instead of a redirect;
  both carry the target that the update returned.
\<close>

datatype visit_response = Redirect string | ClickUpdated string

fun visit_target :: "visit_response \<Rightarrow> string" where
  "visit_target (Redirect t) = t"
| "visit_target (ClickUpdated t) = t"

definition resolveAndRecordVisit :: "nat \<Rightarrow> links \<Rightarrow> string \<Rightarrow> string option
    \<Rightarrow> (error + visit_response) \<times> links" where
  "resolveAndRecordVisit now rows c test =
     (case update_visit rows c now of (q, rows') \<Rightarrow>
        (case q of
           [] \<Rightarrow> (Inl NotFound, rows')
         | t # _ \<Rightarrow> (if test = Some ''1'' then (Inr (ClickUpdated t), rows')
                     else (Inr (Redirect t), rows'))))"

subsection \<open>Metadata: \<^verbatim>\<open>GET /api/links/:code\<close>\<close>

definition getMetadata :: "links \<Rightarrow> string \<Rightarrow> (error + link) \<times> links" where
  "getMetadata rows c =
     (case select_code rows c of
        [] \<Rightarrow> (Inl NotFound, rows)
      | row # _ \<Rightarrow> (Inr row, rows))"

subsection \<open>List: \<^verbatim>\<open>GET /api/links\<close>\<close>

text \<open>
  A query parameter is \<open>None\<close> when it is absent and \<open>Some s\<close> when it is given once, as
  the string \<open>s\<close>.
  \<^verbatim>\<open>parseInt(v, 10)\<close> of ECMAScript: the argument is converted to a string (an absent
  query parameter is \<^verbatim>\<open>undefined\<close>, whose text has no digits), leading white space is
  dropped, one sign is read, and the longest run of decimal digits that follows is the
  number; with no digit the result is \<^verbatim>\<open>NaN\<close>, here \<open>None\<close>. A character is one
  code unit below 256. The result here is the exact integer. JavaScript returns a
  double: every integer of magnitude up to \<open>2 ^ 53\<close> is returned exactly, a larger one
  is rounded to a double of the same sign (a long run of digits gives \<^verbatim>\<open>Infinity\<close>). So
  the model gives the value that the handler uses only within \<open>2 ^ 53\<close>; beyond it only
  the sign and the comparison with 100 carry over, and a statement that names the value
  is made within that bound.
\<close>

definition isStrWhiteSpaceChar :: "char \<Rightarrow> bool" where
  "isStrWhiteSpaceChar c = (of_char c \<in> set [9, 10, 11, 12, 13, 32, 160 :: nat])"

definition isDigit :: "char \<Rightarrow> bool" where
  "isDigit c = (CHR ''0'' \<le> c \<and> c \<le> CHR ''9'')"

definition digitValue :: "char \<Rightarrow> nat" where
  "digitValue c = of_char c - of_char CHR ''0''"

definition parseInt :: "string option \<Rightarrow> int option" where
  "parseInt v =
     (case v of
        None \<Rightarrow> None
      | Some inputString \<Rightarrow>
          (let S = dropWhile isStrWhiteSpaceChar inputString;
               sign = (if S \<noteq> [] \<and> hd S = CHR ''-'' then - 1 else 1 :: int);
               S' = (if S \<noteq> [] \<and> (hd S = CHR ''+'' \<or> hd S = CHR ''-'') then tl S else S);
               Z = takeWhile isDigit S'
           in if Z = [] then None
              else Some (sign * int (foldl (\<lambda>n c. 10 * n + digitValue c) 0 Z))))"

text \<open>\<^verbatim>\<open>x || d\<close> on a number: \<^verbatim>\<open>NaN\<close> and zero are falsy.\<close>

definition or_default :: "int option \<Rightarrow> int \<Rightarrow> int" where
  "or_default x d = (case x of None \<Rightarrow> d | Some n \<Rightarrow> if n = 0 then d else n)"

text \<open>
  The two values the handler passes to \<^verbatim>\<open>LIMIT $1 OFFSET $2\<close>:
  \<^verbatim>\<open>Math.min(100, parseInt(req.query.limit, 10) || 50)\<close> and
  \<^verbatim>\<open>parseInt(req.query.offset, 10) || 0\<close>.
\<close>

definition list_limit :: "string option \<Rightarrow> int" where
  "list_limit v = min 100 (or_default (parseInt v) 50)"

definition list_offset :: "string option \<Rightarrow> int" where
  "list_offset v = or_default (parseInt v) 0"

section \<open>The pattern of the specification\<close>

text \<open>
  The specification's rule for a code, in its own words: case-sensitive alphanumeric,
  length 6 to 8.
\<close>

definition alphanumeric :: "char \<Rightarrow> bool" where
  "alphanumeric c =
     (c \<in> set ''ABCDEFGHIJKLMNOPQRSTUVWXYZ'' \<union> set ''abcdefghijklmnopqrstuvwxyz''
          \<union> set ''0123456789'')"

definition spec_code_pattern :: "string \<Rightarrow> bool" where
  "spec_code_pattern s = (length s \<in> {6..8} \<and> (\<forall>c \<in> set s. alphanumeric c))"

section \<open>Example data\<close>

text \<open>A small table, a target and a stand-in for the URL check, used to run the operations.\<close>

definition example_rows :: links where
  "example_rows = [\<lparr>code = ''abc1234'', target = ''https://example.com'', clicks = 4,
                     created_at = 1, last_clicked = None\<rparr>]"

definition taken_rows :: links where
  "taken_rows = [\<lparr>code = ''AAAAAAA'', target = ''https://example.org'', clicks = 2,
                   created_at = 3, last_clicked = Some 4\<rparr>]"

definition example_target :: string where
  "example_target = ''https://example.com''"

definition example_isWebUri :: "string \<Rightarrow> bool" where
  "example_isWebUri u = (u = ''https://example.com'')"

definition generated_row :: "string \<Rightarrow> link" where
  "generated_row c = \<lparr>code = c, target = ''https://example.com'', clicks = 0, created_at = 9,
                       last_clicked = None\<rparr>"

section \<open>Facts about the statements and the helpers\<close>

lemma update_visit_returned:
  "fst (update_visit rows c now) = map target (select_code rows c)"
  by (induction rows) (auto simp: update_visit_def select_code_def Let_def)

lemma update_visit_table:
  "snd (update_visit rows c now) =
     map (\<lambda>r. if code r = c then r\<lparr>clicks := clicks r + 1, last_clicked := Some now\<rparr> else r) rows"
  by (simp add: update_visit_def Let_def)

lemma update_visit_absent:
  "select_code rows c = [] \<Longrightarrow> snd (update_visit rows c now) = rows"
  by (induction rows) (auto simp: update_visit_def select_code_def Let_def split: if_splits)

lemma select_code_Nil_iff: "select_code rows c = [] \<longleftrightarrow> c \<notin> code ` set rows"
  by (auto simp: select_code_def filter_empty_conv)

lemma select_code_append_fresh:
  "select_code rows (code row) = [] \<Longrightarrow> select_code (rows @ [row]) (code row) = [row]"
  by (simp add: select_code_def)

lemma in_class_alphanumeric: "in_class CODE_RE_class c = alphanumeric c"
proof -
  have "\<forall>c::char. in_class CODE_RE_class c = alphanumeric c" by code_simp
  then show ?thesis by blast
qed

lemma in_class_chars: "in_class CODE_RE_class c = (c \<in> set chars)"
proof -
  have "\<forall>c::char. in_class CODE_RE_class c = (c \<in> set chars)" by code_simp
  then show ?thesis by blast
qed

lemma CODE_RE_test_spec: "CODE_RE_test s = spec_code_pattern s"
  by (auto simp: CODE_RE_test_def spec_code_pattern_def list_all_iff in_class_alphanumeric)

lemma insert_link_fresh:
  "select_code rows c = [] \<Longrightarrow>
   insert_and_respond rows pos c t now =
     (Inr \<lparr>code = c, target = t, clicks = 0, created_at = now, last_clicked = None\<rparr>,
      rows @ [\<lparr>code = c, target = t, clicks = 0, created_at = now, last_clicked = None\<rparr>], pos)"
  by (simp add: insert_and_respond_def insert_link_def Let_def)

lemma fold_append_concat:
  "fold (\<lambda>i out. out @ f i) xs acc = acc @ concat (map f xs)"
  by (induction xs arbitrary: acc) simp_all

lemma genCode_in_range:
  assumes "draws_in_range rnd"
  shows "genCode len rnd pos = map (\<lambda>i. chars ! rnd (pos + i)) [0..<len]"
proof -
  have "charAt chars (rnd k) = [chars ! rnd k]" for k
    using assms by (simp add: charAt_def draws_in_range_def)
  then have "concat (map (\<lambda>i. charAt chars (rnd (pos + i))) xs) = map (\<lambda>i. chars ! rnd (pos + i)) xs" for xs
    by (induction xs) simp_all
  then show ?thesis by (simp add: genCode_def fold_append_concat)
qed

lemma genCode_length: "draws_in_range rnd \<Longrightarrow> length (genCode len rnd pos) = len"
  by (simp add: genCode_in_range)

lemma genCode_alphabet: "draws_in_range rnd \<Longrightarrow> set (genCode len rnd pos) \<subseteq> set chars"
  by (auto simp: genCode_in_range draws_in_range_def)

lemma genCode_CODE_RE: "draws_in_range rnd \<Longrightarrow> CODE_RE_test (genCode 7 rnd pos)"
  using genCode_alphabet[of rnd 7 pos]
  by (auto simp: CODE_RE_test_def genCode_length list_all_iff in_class_chars)

lemma genCode_const: "genCode 7 (\<lambda>k. 0) q = ''AAAAAAA''"
  by (simp add: genCode_def charAt_def chars_def upt_rec)

lemma draws_const: "draws_in_range (\<lambda>k. 0)"
  by (simp add: draws_in_range_def chars_def)

lemma parseInt_minus5: "parseInt (Some ''-5'') = Some (- 5)"
  by (simp add: parseInt_def isStrWhiteSpaceChar_def isDigit_def digitValue_def)

lemma parseInt_minus3: "parseInt (Some ''-3'') = Some (- 3)"
  by (simp add: parseInt_def isStrWhiteSpaceChar_def isDigit_def digitValue_def)

lemma parseInt_7: "parseInt (Some ''7'') = Some 7"
  by (simp add: parseInt_def isStrWhiteSpaceChar_def isDigit_def digitValue_def)

lemma parseInt_500: "parseInt (Some ''500'') = Some 500"
  by (simp add: parseInt_def isStrWhiteSpaceChar_def isDigit_def digitValue_def)

lemma parseInt_abc: "parseInt (Some ''abc'') = None"
  by (simp add: parseInt_def isStrWhiteSpaceChar_def isDigit_def digitValue_def)

lemma parseInt_0: "parseInt (Some ''0'') = Some 0"
  by (simp add: parseInt_def isStrWhiteSpaceChar_def isDigit_def digitValue_def)

section \<open>Facts about the generation loop and the create handler\<close>

lemma gen_loop_candidate:
  "gen_loop rows rnd pos a = (fc, at, p') \<Longrightarrow> \<exists>q. fc = genCode 7 rnd q"
proof (induction rows rnd pos a rule: gen_loop.induct)
  case (1 rows rnd pos attempts)
  show ?case
  proof (cases "select_code rows (genCode 7 rnd pos) = []")
    case True
    with "1.prems" show ?thesis by (auto simp: gen_loop.simps[of rows rnd pos attempts])
  next
    case False
    show ?thesis
    proof (cases "attempts + 1 < maxAttempts")
      case True
      with False "1.prems" have "gen_loop rows rnd (pos + 7) (attempts + 1) = (fc, at, p')"
        by (simp add: gen_loop.simps[of rows rnd pos attempts])
      with "1.IH" False True show ?thesis by simp
    next
      case F2: False
      with False "1.prems" show ?thesis by (auto simp: gen_loop.simps[of rows rnd pos attempts])
    qed
  qed
qed

lemma gen_loop_fresh:
  "gen_loop rows rnd pos a = (fc, at, p') \<Longrightarrow> a < maxAttempts \<Longrightarrow> at < maxAttempts \<Longrightarrow> select_code rows fc = []"
proof (induction rows rnd pos a rule: gen_loop.induct)
  case (1 rows rnd pos attempts)
  show ?case
  proof (cases "select_code rows (genCode 7 rnd pos) = []")
    case True
    with "1.prems" show ?thesis by (auto simp: gen_loop.simps[of rows rnd pos attempts])
  next
    case False
    show ?thesis
    proof (cases "attempts + 1 < maxAttempts")
      case True
      with False "1.prems" have "gen_loop rows rnd (pos + 7) (attempts + 1) = (fc, at, p')"
        by (simp add: gen_loop.simps[of rows rnd pos attempts])
      with "1.IH" False True "1.prems" show ?thesis by simp
    next
      case F2: False
      with False "1.prems" show ?thesis by (auto simp: gen_loop.simps[of rows rnd pos attempts])
    qed
  qed
qed

lemma gen_loop_hit:
  "a + k < maxAttempts \<Longrightarrow>
   \<forall>j<k. select_code rows (genCode 7 rnd (pos + 7 * j)) \<noteq> [] \<Longrightarrow>
   select_code rows (genCode 7 rnd (pos + 7 * k)) = [] \<Longrightarrow>
   gen_loop rows rnd pos a = (genCode 7 rnd (pos + 7 * k), a + k, pos + 7 * (k + 1))"
proof (induction k arbitrary: pos a)
  case 0
  then show ?case by (simp add: gen_loop.simps[of rows rnd pos a])
next
  case (Suc k)
  have c0: "select_code rows (genCode 7 rnd pos) \<noteq> []" using Suc.prems(2) by force
  have shift: "\<forall>j<k. select_code rows (genCode 7 rnd (pos + 7 + 7 * j)) \<noteq> []"
  proof (intro allI impI)
    fix j assume "j < k"
    then have "Suc j < Suc k" by simp
    then have "select_code rows (genCode 7 rnd (pos + 7 * Suc j)) \<noteq> []" using Suc.prems(2) by blast
    then show "select_code rows (genCode 7 rnd (pos + 7 + 7 * j)) \<noteq> []" by (simp add: add.assoc)
  qed
  have last: "select_code rows (genCode 7 rnd (pos + 7 + 7 * k)) = []"
    using Suc.prems(3) by (simp add: add.assoc)
  have "gen_loop rows rnd (pos + 7) (a + 1) = (genCode 7 rnd (pos + 7 + 7 * k), a + 1 + k, pos + 7 + 7 * (k + 1))"
    using Suc.IH[of "a + 1" "pos + 7"] Suc.prems(1) shift last by simp
  moreover have "a + 1 < maxAttempts" using Suc.prems(1) by simp
  ultimately show ?case using c0
    by (simp add: gen_loop.simps[of rows rnd pos a] add.assoc)
qed

lemma gen_loop_miss:
  "a + n = maxAttempts \<Longrightarrow> 0 < n \<Longrightarrow>
   \<forall>j<n. select_code rows (genCode 7 rnd (pos + 7 * j)) \<noteq> [] \<Longrightarrow>
   gen_loop rows rnd pos a = (genCode 7 rnd (pos + 7 * (n - 1)), maxAttempts, pos + 7 * n)"
proof (induction n arbitrary: pos a)
  case 0
  then show ?case by simp
next
  case (Suc n)
  have c0: "select_code rows (genCode 7 rnd pos) \<noteq> []" using Suc.prems(3) by force
  show ?case
  proof (cases "n = 0")
    case True
    then have "\<not> a + 1 < maxAttempts" and "a + 1 = maxAttempts" using Suc.prems(1) by simp_all
    then show ?thesis using c0 True by (simp add: gen_loop.simps[of rows rnd pos a])
  next
    case False
    have shift: "\<forall>j<n. select_code rows (genCode 7 rnd (pos + 7 + 7 * j)) \<noteq> []"
    proof (intro allI impI)
      fix j assume "j < n"
      then have "Suc j < Suc n" by simp
      then have "select_code rows (genCode 7 rnd (pos + 7 * Suc j)) \<noteq> []" using Suc.prems(3) by blast
      then show "select_code rows (genCode 7 rnd (pos + 7 + 7 * j)) \<noteq> []" by (simp add: add.assoc)
    qed
    have "gen_loop rows rnd (pos + 7) (a + 1) = (genCode 7 rnd (pos + 7 + 7 * (n - 1)), maxAttempts, pos + 7 + 7 * n)"
      using Suc.IH[of "a + 1" "pos + 7"] Suc.prems(1) False shift by simp
    moreover have "a + 1 < maxAttempts" using Suc.prems(1) False by simp
    moreover have "pos + 7 + 7 * (n - 1) = pos + 7 * n" using False by (cases n) simp_all
    ultimately show ?thesis using c0
      by (simp add: gen_loop.simps[of rows rnd pos a] add.assoc)
  qed
qed

lemma create_requested:
  assumes "t \<noteq> []" "isWebUri t" "c \<noteq> []"
  shows "create isWebUri rnd now rows pos (Some t) (Some c) =
     (if \<not> CODE_RE_test c then (Inl InvalidCode, rows, pos)
      else if select_code rows c \<noteq> [] then (Inl CodeConflict, rows, pos)
      else (Inr \<lparr>code = c, target = t, clicks = 0, created_at = now, last_clicked = None\<rparr>,
            rows @ [\<lparr>code = c, target = t, clicks = 0, created_at = now, last_clicked = None\<rparr>], pos))"
  using assms by (simp add: create_def truthy_def insert_link_fresh)

lemma insert_and_respond_Inr:
  assumes "insert_and_respond rows p fc t now = (Inr row, rows', p')"
  shows "row = \<lparr>code = fc, target = t, clicks = 0, created_at = now, last_clicked = None\<rparr>
       \<and> rows' = rows @ [row] \<and> p' = p \<and> select_code rows fc = []"
  using assms by (auto simp: insert_and_respond_def insert_link_def Let_def split: if_splits)

lemma insert_and_respond_Inl:
  "insert_and_respond rows p fc t now = (Inl e, rows', p') \<Longrightarrow> rows' = rows"
  by (auto simp: insert_and_respond_def insert_link_def Let_def split: if_splits)

lemma create_generated:
  assumes "t \<noteq> []" "isWebUri t"
  shows "create isWebUri rnd now rows pos (Some t) None =
     (case gen_loop rows rnd pos 0 of (finalCode, attempts, pos') \<Rightarrow>
        if attempts \<ge> maxAttempts then (Inl CodeGenerationExhausted, rows, pos')
        else insert_and_respond rows pos' finalCode t now)"
  using assms by (simp add: create_def truthy_def split: prod.splits)

lemma create_empty_code:
  "create isWebUri rnd now rows pos tgt (Some []) = create isWebUri rnd now rows pos tgt None"
  by (simp add: create_def truthy_def)

lemma create_None_Inr:
  assumes "create isWebUri rnd now rows pos tgt None = (Inr row, rows', pos')"
  shows "\<exists>t q. tgt = Some t \<and> t \<noteq> [] \<and> isWebUri t
       \<and> row = \<lparr>code = genCode 7 rnd q, target = t, clicks = 0, created_at = now, last_clicked = None\<rparr>
       \<and> rows' = rows @ [row] \<and> select_code rows (code row) = []"
proof -
  obtain t where t: "tgt = Some t" "t \<noteq> []" "isWebUri t"
    using assms by (cases tgt) (auto simp: create_def truthy_def split: if_splits)
  obtain fc at p where g: "gen_loop rows rnd pos 0 = (fc, at, p)"
    by (cases "gen_loop rows rnd pos 0") auto
  have ins: "insert_and_respond rows p fc t now = (Inr row, rows', pos')"
    using assms t g by (simp add: create_generated split: if_splits)
  obtain q where q: "fc = genCode 7 rnd q" using gen_loop_candidate[OF g] by blast
  show ?thesis using insert_and_respond_Inr[OF ins] t q by auto
qed

lemma create_never_raises:
  "fst (create isWebUri rnd now rows pos tgt cd) \<noteq> Inl StoreUnavailable"
proof (cases "truthy tgt \<and> isWebUri (the tgt) \<and> \<not> (truthy cd \<and> \<not> CODE_RE_test (the cd))")
  case False
  then show ?thesis by (auto simp: create_def split: if_splits)
next
  case ok: True
  show ?thesis
  proof (cases "truthy cd")
    case True
    then show ?thesis using ok
      by (auto simp: create_def insert_link_fresh split: if_splits)
  next
    case False
    obtain fc at p where g: "gen_loop rows rnd pos 0 = (fc, at, p)"
      by (cases "gen_loop rows rnd pos 0") auto
    have "at < maxAttempts \<Longrightarrow> select_code rows fc = []"
      using gen_loop_fresh[OF g] by (simp add: maxAttempts_def)
    then show ?thesis using ok False g
      by (auto simp: create_def insert_link_fresh split: if_splits)
  qed
qed

section \<open>The redirect lookup\<close>

text \<open>
  Claim C1. For every table and every code, the redirect lookup rewrites exactly the rows
  with that code: their \<open>clicks\<close> grow by one and their \<open>last_clicked\<close> becomes the
  current time, while \<open>code\<close>, \<open>target\<close> and \<open>created_at\<close> stay as they were; every other
  row is untouched. When a row with the code exists the answer carries the target of that
  row; when none exists the answer is \<open>NotFound\<close> and the table is unchanged. All of it is
  the effect of the single \<^verbatim>\<open>UPDATE ... RETURNING\<close> statement.
\<close>

theorem resolveAndRecordVisit_records_visit:
  assumes "resolveAndRecordVisit now rows c test = (res, rows')"
  shows "length rows' = length rows
       \<and> (\<forall>i < length rows. code (rows ! i) = c \<longrightarrow>
             clicks (rows' ! i) = clicks (rows ! i) + 1
           \<and> last_clicked (rows' ! i) = Some now
           \<and> code (rows' ! i) = code (rows ! i)
           \<and> target (rows' ! i) = target (rows ! i)
           \<and> created_at (rows' ! i) = created_at (rows ! i))
       \<and> (\<forall>i < length rows. code (rows ! i) \<noteq> c \<longrightarrow> rows' ! i = rows ! i)
       \<and> (\<forall>r0 rest. select_code rows c = r0 # rest \<longrightarrow>
             (\<exists>resp. res = Inr resp \<and> visit_target resp = target r0))
       \<and> (c \<notin> code ` set rows \<longrightarrow> res = Inl NotFound \<and> rows' = rows)"
proof -
  obtain q t where u: "update_visit rows c now = (q, t)"
    by (cases "update_visit rows c now")
  have q: "q = map target (select_code rows c)"
    using update_visit_returned[of rows c now] u by simp
  have t: "t = map (\<lambda>r. if code r = c
                         then r\<lparr>clicks := clicks r + 1, last_clicked := Some now\<rparr> else r) rows"
    using update_visit_table[of rows c now] u by simp
  have r: "rows' = t"
    using assms u by (auto simp: resolveAndRecordVisit_def split: list.splits if_splits)
  have 1: "length rows' = length rows"
    using r t by simp
  have 2: "\<forall>i < length rows. code (rows ! i) = c \<longrightarrow>
             clicks (rows' ! i) = clicks (rows ! i) + 1
           \<and> last_clicked (rows' ! i) = Some now
           \<and> code (rows' ! i) = code (rows ! i)
           \<and> target (rows' ! i) = target (rows ! i)
           \<and> created_at (rows' ! i) = created_at (rows ! i)"
    using r t by simp
  have 3: "\<forall>i < length rows. code (rows ! i) \<noteq> c \<longrightarrow> rows' ! i = rows ! i"
    using r t by simp
  have 4: "\<forall>r0 rest. select_code rows c = r0 # rest \<longrightarrow>
             (\<exists>resp. res = Inr resp \<and> visit_target resp = target r0)"
    using assms u q by (auto simp: resolveAndRecordVisit_def split: list.splits if_splits)
  have 5: "c \<notin> code ` set rows \<longrightarrow> res = Inl NotFound \<and> rows' = rows"
    using assms u q r update_visit_absent[of rows c now] select_code_Nil_iff[of rows c]
    by (auto simp: resolveAndRecordVisit_def split: list.splits if_splits)
  show ?thesis using 1 2 3 4 5 by blast
qed

text \<open>
  The lookup run on the example table: a visit of the stored code moves its counter from
  4 to 5 and redirects to its target; a visit of an unknown code is \<open>NotFound\<close>.
\<close>

theorem resolveAndRecordVisit_records_visit_witness:
  "resolveAndRecordVisit 9 example_rows ''abc1234'' None =
     (Inr (Redirect ''https://example.com''),
      [\<lparr>code = ''abc1234'', target = ''https://example.com'', clicks = 5,
         created_at = 1, last_clicked = Some 9\<rparr>])
   \<and> ''nothere'' \<notin> code ` set example_rows
   \<and> resolveAndRecordVisit 9 example_rows ''nothere'' None = (Inl NotFound, example_rows)"
proof -
  have a: "resolveAndRecordVisit 9 example_rows ''abc1234'' None =
     (Inr (Redirect ''https://example.com''),
      [\<lparr>code = ''abc1234'', target = ''https://example.com'', clicks = 5,
         created_at = 1, last_clicked = Some 9\<rparr>])"
    by (simp add: resolveAndRecordVisit_def update_visit_def example_rows_def)
  have s: "''nothere'' \<notin> code ` set example_rows"
    by (simp add: example_rows_def)
  obtain res rows' where b: "resolveAndRecordVisit 9 example_rows ''nothere'' None = (res, rows')"
    by (cases "resolveAndRecordVisit 9 example_rows ''nothere'' None")
  show ?thesis
    using a s b resolveAndRecordVisit_records_visit [OF a] resolveAndRecordVisit_records_visit [OF b]
    by simp
qed

section \<open>Create with a requested code\<close>

text \<open>
  Claim C2. For a non-empty target that passes the URL check and a non-empty requested
  code, create answers \<open>InvalidCode\<close> exactly when the code is not alphanumeric of length
  6 to 8. In particular a code shorter than 6, longer than 8, or with a hyphen or an
  underscore is rejected, and so are \<^verbatim>\<open>ab\<close> and \<^verbatim>\<open>Ab3_9\<close>; the table is not changed.
\<close>

theorem create_InvalidCode_iff:
  assumes "t \<noteq> []" and "isWebUri t" and "c \<noteq> []"
  shows "(fst (create isWebUri rnd now rows pos (Some t) (Some c)) = Inl InvalidCode
            \<longleftrightarrow> \<not> spec_code_pattern c)
       \<and> (length c < 6 \<or> 8 < length c \<or> CHR ''-'' \<in> set c \<or> CHR ''_'' \<in> set c
            \<longrightarrow> create isWebUri rnd now rows pos (Some t) (Some c) = (Inl InvalidCode, rows, pos))
       \<and> create isWebUri rnd now rows pos (Some t) (Some ''ab'') = (Inl InvalidCode, rows, pos)
       \<and> create isWebUri rnd now rows pos (Some t) (Some ''Ab3_9'') = (Inl InvalidCode, rows, pos)"
proof -
  have a: "fst (create isWebUri rnd now rows pos (Some t) (Some c)) = Inl InvalidCode
            \<longleftrightarrow> \<not> spec_code_pattern c"
    using assms by (simp add: create_requested CODE_RE_test_spec)
  have hy: "\<not> alphanumeric CHR ''-''" and us: "\<not> alphanumeric CHR ''_''"
    by (simp_all add: alphanumeric_def)
  have b: "length c < 6 \<or> 8 < length c \<or> CHR ''-'' \<in> set c \<or> CHR ''_'' \<in> set c
            \<Longrightarrow> \<not> spec_code_pattern c"
    using hy us by (auto simp: spec_code_pattern_def)
  have c1: "\<not> CODE_RE_test ''ab''" and c2: "\<not> CODE_RE_test ''Ab3_9''"
    by (simp_all add: CODE_RE_test_def)
  show ?thesis using a b c1 c2 assms
    by (simp add: create_requested CODE_RE_test_spec)
qed

text \<open>Create run with the requested code \<^verbatim>\<open>Ab3_9\<close> on the example table.\<close>

theorem create_InvalidCode_iff_witness:
  "example_target \<noteq> [] \<and> example_isWebUri example_target \<and> ''Ab3_9'' \<noteq> []
   \<and> \<not> spec_code_pattern ''Ab3_9''
   \<and> create example_isWebUri (\<lambda>k. 0) 9 example_rows 0 (Some example_target) (Some ''Ab3_9'')
        = (Inl InvalidCode, example_rows, 0)"
proof -
  have h: "example_target \<noteq> []" "example_isWebUri example_target" "''Ab3_9'' \<noteq> []"
    by (simp_all add: example_target_def example_isWebUri_def)
  show ?thesis
    using h create_InvalidCode_iff [where t = example_target and isWebUri = example_isWebUri
        and c = "''Ab3_9''" and rnd = "\<lambda>k. 0" and now = 9 and rows = example_rows and pos = 0]
    by auto
qed

text \<open>
  Claim C3. For a valid target and a requested code that matches the pattern: when a
  link with the code is in the table, create answers \<open>CodeConflict\<close> and the table is
  unchanged; when none is, create succeeds and appends one row with the code, after
  which every further create with the same code (whatever its valid target, time or
  random draws) answers \<open>CodeConflict\<close> and changes nothing. So of two calls in sequence
  with the same fresh code the first succeeds and the second fails.
\<close>

theorem create_conflict:
  assumes "t \<noteq> []" and "isWebUri t" and "CODE_RE_test c"
  shows "(c \<in> code ` set rows \<longrightarrow>
            create isWebUri rnd now rows pos (Some t) (Some c) = (Inl CodeConflict, rows, pos))
       \<and> (c \<notin> code ` set rows \<longrightarrow>
            (\<exists>row. create isWebUri rnd now rows pos (Some t) (Some c) = (Inr row, rows @ [row], pos)
               \<and> code row = c
               \<and> (\<forall>t2 rnd2 now2 pos2. t2 \<noteq> [] \<and> isWebUri t2 \<longrightarrow>
                     create isWebUri rnd2 now2 (rows @ [row]) pos2 (Some t2) (Some c)
                       = (Inl CodeConflict, rows @ [row], pos2))))"
proof -
  have ne: "c \<noteq> []" using assms(3) by (auto simp: CODE_RE_test_def)
  have a: "c \<in> code ` set rows \<longrightarrow>
            create isWebUri rnd now rows pos (Some t) (Some c) = (Inl CodeConflict, rows, pos)"
    using assms ne by (simp add: create_requested select_code_Nil_iff)
  have b: "c \<notin> code ` set rows \<longrightarrow>
            (\<exists>row. create isWebUri rnd now rows pos (Some t) (Some c) = (Inr row, rows @ [row], pos)
               \<and> code row = c
               \<and> (\<forall>t2 rnd2 now2 pos2. t2 \<noteq> [] \<and> isWebUri t2 \<longrightarrow>
                     create isWebUri rnd2 now2 (rows @ [row]) pos2 (Some t2) (Some c)
                       = (Inl CodeConflict, rows @ [row], pos2)))"
  proof
    assume fresh: "c \<notin> code ` set rows"
    let ?row = "\<lparr>code = c, target = t, clicks = 0, created_at = now, last_clicked = None\<rparr>"
    have 1: "create isWebUri rnd now rows pos (Some t) (Some c) = (Inr ?row, rows @ [?row], pos)"
      using assms ne fresh by (simp add: create_requested select_code_Nil_iff)
    have 2: "select_code (rows @ [?row]) c \<noteq> []"
      by (simp add: select_code_def)
    have 3: "\<forall>t2 rnd2 now2 pos2. t2 \<noteq> [] \<and> isWebUri t2 \<longrightarrow>
                     create isWebUri rnd2 now2 (rows @ [?row]) pos2 (Some t2) (Some c)
                       = (Inl CodeConflict, rows @ [?row], pos2)"
      using assms(3) ne 2 by (simp add: create_requested)
    show "\<exists>row. create isWebUri rnd now rows pos (Some t) (Some c) = (Inr row, rows @ [row], pos)
               \<and> code row = c
               \<and> (\<forall>t2 rnd2 now2 pos2. t2 \<noteq> [] \<and> isWebUri t2 \<longrightarrow>
                     create isWebUri rnd2 now2 (rows @ [row]) pos2 (Some t2) (Some c)
                       = (Inl CodeConflict, rows @ [row], pos2))"
      using 1 3 by (intro exI[of _ ?row]) simp
  qed
  show ?thesis using a b by blast
qed

text \<open>
  Create run twice with the fresh code \<^verbatim>\<open>Zz99zz\<close>, and once with the stored code
  \<^verbatim>\<open>abc1234\<close>.
\<close>

theorem create_conflict_witness:
  "example_target \<noteq> [] \<and> example_isWebUri example_target
   \<and> CODE_RE_test ''abc1234'' \<and> ''abc1234'' \<in> code ` set example_rows
   \<and> create example_isWebUri (\<lambda>k. 0) 9 example_rows 0 (Some example_target) (Some ''abc1234'')
        = (Inl CodeConflict, example_rows, 0)
   \<and> CODE_RE_test ''Zz99zz'' \<and> ''Zz99zz'' \<notin> code ` set example_rows
   \<and> create example_isWebUri (\<lambda>k. 0) 9 example_rows 0 (Some example_target) (Some ''Zz99zz'')
        = (Inr (generated_row ''Zz99zz''), example_rows @ [generated_row ''Zz99zz''], 0)
   \<and> create example_isWebUri (\<lambda>k. 0) 12 (example_rows @ [generated_row ''Zz99zz'']) 0
        (Some example_target) (Some ''Zz99zz'')
        = (Inl CodeConflict, example_rows @ [generated_row ''Zz99zz''], 0)"
proof -
  have h: "example_target \<noteq> []" "example_isWebUri example_target"
    by (simp_all add: example_target_def example_isWebUri_def)
  have c1: "CODE_RE_test ''abc1234''" and c2: "CODE_RE_test ''Zz99zz''"
    by (simp_all add: CODE_RE_test_def in_class_def CODE_RE_class_def)
  have m1: "''abc1234'' \<in> code ` set example_rows" and m2: "''Zz99zz'' \<notin> code ` set example_rows"
    by (simp_all add: example_rows_def)
  have e: "create example_isWebUri (\<lambda>k. 0) 9 example_rows 0 (Some example_target) (Some ''Zz99zz'')
        = (Inr (generated_row ''Zz99zz''), example_rows @ [generated_row ''Zz99zz''], 0)"
    using h c2 m2
    by (simp add: create_requested select_code_Nil_iff generated_row_def example_target_def)
  show ?thesis
    using h c1 c2 m1 m2 e
      create_conflict [where t = example_target and isWebUri = example_isWebUri
        and c = "''abc1234''" and rows = example_rows and rnd = "\<lambda>k. 0" and now = 9 and pos = 0]
      create_conflict [where t = example_target and isWebUri = example_isWebUri
        and c = "''Zz99zz''" and rows = example_rows and rnd = "\<lambda>k. 0" and now = 9 and pos = 0]
    by auto
qed

section \<open>Create with a generated code\<close>

text \<open>
  Claim C4. When create without a requested code succeeds (the draws being those of
  \<^verbatim>\<open>Math.random\<close>), the returned link has a code of exactly 7 characters of the
  62-character alphabet, which matches the pattern of length 6 to 8; its \<open>clicks\<close> is 0,
  its \<open>last_clicked\<close> is null, its \<open>created_at\<close> is the time of the call and its target
  is the one given. The link is appended to the table, and a metadata read of its code
  on the new table returns that link, with \<open>clicks = 0\<close>.
\<close>

theorem create_generated_link:
  assumes "draws_in_range rnd"
    and "create isWebUri rnd now rows pos tgt None = (Inr row, rows', pos')"
  shows "spec_code_pattern (code row) \<and> length (code row) = 7 \<and> set (code row) \<subseteq> set chars
       \<and> length chars = 62
       \<and> clicks row = 0 \<and> last_clicked row = None \<and> created_at row = now
       \<and> tgt = Some (target row)
       \<and> rows' = rows @ [row]
       \<and> getMetadata rows' (code row) = (Inr row, rows')
       \<and> (\<exists>m. fst (getMetadata rows' (code row)) = Inr m \<and> clicks m = 0)"
proof -
  obtain t q where r: "tgt = Some t"
      "row = \<lparr>code = genCode 7 rnd q, target = t, clicks = 0, created_at = now, last_clicked = None\<rparr>"
      "rows' = rows @ [row]" "select_code rows (code row) = []"
    using create_None_Inr[OF assms(2)] by blast
  have c: "code row = genCode 7 rnd q" using r(2) by simp
  have p: "spec_code_pattern (code row)"
    using genCode_CODE_RE[OF assms(1), of q] c by (simp add: CODE_RE_test_spec)
  have l: "length (code row) = 7" using genCode_length[OF assms(1), of 7 q] c by simp
  have s: "set (code row) \<subseteq> set chars" using genCode_alphabet[OF assms(1), of 7 q] c by simp
  have n: "length chars = 62" by (simp add: chars_def)
  have g: "getMetadata rows' (code row) = (Inr row, rows')"
    using select_code_append_fresh[OF r(4)] r(3) by (simp add: getMetadata_def)
  have f: "clicks row = 0 \<and> last_clicked row = None \<and> created_at row = now \<and> tgt = Some (target row)"
    using r(1,2) by simp
  show ?thesis using p l s n g f r(3) by simp
qed

text \<open>Create without a code on the example table, every draw being 0.\<close>

theorem create_generated_link_witness:
  "draws_in_range (\<lambda>k. 0)
   \<and> create example_isWebUri (\<lambda>k. 0) 9 example_rows 0 (Some example_target) None
        = (Inr (generated_row ''AAAAAAA''), example_rows @ [generated_row ''AAAAAAA''], 7)
   \<and> spec_code_pattern ''AAAAAAA''
   \<and> getMetadata (example_rows @ [generated_row ''AAAAAAA'']) ''AAAAAAA''
        = (Inr (generated_row ''AAAAAAA''), example_rows @ [generated_row ''AAAAAAA''])
   \<and> clicks (generated_row ''AAAAAAA'') = 0"
proof -
  have h: "example_target \<noteq> []" "example_isWebUri example_target"
    by (simp_all add: example_target_def example_isWebUri_def)
  have f: "select_code example_rows ''AAAAAAA'' = []"
    by (simp add: select_code_def example_rows_def)
  have g: "gen_loop example_rows (\<lambda>k. 0) 0 0 = (''AAAAAAA'', 0, 7)"
    using f by (simp add: gen_loop.simps[of example_rows "\<lambda>k. 0" 0 0] genCode_const)
  have e: "create example_isWebUri (\<lambda>k. 0) 9 example_rows 0 (Some example_target) None
        = (Inr (generated_row ''AAAAAAA''), example_rows @ [generated_row ''AAAAAAA''], 7)"
    using h f g
    by (simp add: create_generated maxAttempts_def insert_link_fresh generated_row_def
        example_target_def)
  show ?thesis
    using draws_const e create_generated_link [OF draws_const e]
    by (simp add: generated_row_def example_target_def)
qed

text \<open>
  Claim C5. Create without a requested code, on a valid target, generates candidates of
  7 draws each, one after the other, and checks each against the table. If the first
  ten candidates are all in the table it answers \<open>CodeGenerationExhausted\<close> after exactly
  ten attempts and the table is unchanged. Otherwise it succeeds with the first
  candidate that is not in the table, after that many attempts. In every case the
  number of attempts is between 1 and 10.
\<close>

theorem create_generation_bounded:
  assumes "t \<noteq> []" and "isWebUri t"
  shows "((\<forall>k<10. genCode 7 rnd (pos + 7 * k) \<in> code ` set rows) \<longrightarrow>
            create isWebUri rnd now rows pos (Some t) None
              = (Inl CodeGenerationExhausted, rows, pos + 7 * 10))
       \<and> (\<forall>k<10. genCode 7 rnd (pos + 7 * k) \<notin> code ` set rows
              \<and> (\<forall>j<k. genCode 7 rnd (pos + 7 * j) \<in> code ` set rows) \<longrightarrow>
            create isWebUri rnd now rows pos (Some t) None
              = (Inr \<lparr>code = genCode 7 rnd (pos + 7 * k), target = t, clicks = 0,
                      created_at = now, last_clicked = None\<rparr>,
                 rows @ [\<lparr>code = genCode 7 rnd (pos + 7 * k), target = t, clicks = 0,
                          created_at = now, last_clicked = None\<rparr>],
                 pos + 7 * (k + 1)))
       \<and> (\<exists>n. 1 \<le> n \<and> n \<le> 10
              \<and> snd (snd (create isWebUri rnd now rows pos (Some t) None)) = pos + 7 * n)"
proof -
  let ?cand = "\<lambda>k. genCode 7 rnd (pos + 7 * k)"
  have miss: "create isWebUri rnd now rows pos (Some t) None
              = (Inl CodeGenerationExhausted, rows, pos + 7 * 10)"
    if all: "\<forall>k<10. ?cand k \<in> code ` set rows"
  proof -
    have "\<forall>j<10. select_code rows (?cand j) \<noteq> []"
      using all by (simp add: select_code_Nil_iff)
    then have "gen_loop rows rnd pos 0 = (?cand (10 - 1), maxAttempts, pos + 7 * 10)"
      using gen_loop_miss[of 0 10 rows rnd pos] by (simp add: maxAttempts_def)
    then show ?thesis using assms by (simp add: create_generated)
  qed
  have hit: "create isWebUri rnd now rows pos (Some t) None
              = (Inr \<lparr>code = ?cand k, target = t, clicks = 0, created_at = now, last_clicked = None\<rparr>,
                 rows @ [\<lparr>code = ?cand k, target = t, clicks = 0, created_at = now, last_clicked = None\<rparr>],
                 pos + 7 * (k + 1))"
    if k: "k < 10" and fresh: "?cand k \<notin> code ` set rows"
      and before: "\<forall>j<k. ?cand j \<in> code ` set rows" for k
  proof -
    have 1: "\<forall>j<k. select_code rows (?cand j) \<noteq> []"
      using before by (simp add: select_code_Nil_iff)
    have 2: "select_code rows (?cand k) = []"
      using fresh by (simp add: select_code_Nil_iff)
    have "gen_loop rows rnd pos 0 = (?cand k, 0 + k, pos + 7 * (k + 1))"
      using gen_loop_hit[of 0 k rows rnd pos] k 1 2 by (simp add: maxAttempts_def)
    then show ?thesis
      using assms k 2 by (simp add: create_generated maxAttempts_def insert_link_fresh)
  qed
  have count: "\<exists>n. 1 \<le> n \<and> n \<le> 10
              \<and> snd (snd (create isWebUri rnd now rows pos (Some t) None)) = pos + 7 * n"
  proof (cases "\<forall>k<10. ?cand k \<in> code ` set rows")
    case True
    then show ?thesis using miss by (intro exI[of _ 10]) simp
  next
    case False
    define k where "k = (LEAST k. k < 10 \<and> ?cand k \<notin> code ` set rows)"
    have ex: "\<exists>k. k < 10 \<and> ?cand k \<notin> code ` set rows" using False by blast
    have kp: "k < 10 \<and> ?cand k \<notin> code ` set rows"
      unfolding k_def using ex by (rule LeastI_ex)
    have "\<forall>j<k. ?cand j \<in> code ` set rows"
    proof (intro allI impI)
      fix j assume jk: "j < k"
      then have "\<not> (j < 10 \<and> ?cand j \<notin> code ` set rows)"
        unfolding k_def by (rule not_less_Least)
      then show "?cand j \<in> code ` set rows" using jk kp by simp
    qed
    then show ?thesis using hit[of k] kp by (intro exI[of _ "k + 1"]) simp
  qed
  show ?thesis using miss hit count by blast
qed

text \<open>
  Two runs on a table that holds \<^verbatim>\<open>AAAAAAA\<close>: with every draw 0 all ten candidates
  collide; with the draws 0 seven times and 1 afterwards the second candidate is taken.
\<close>

theorem create_generation_bounded_witness:
  "example_target \<noteq> [] \<and> example_isWebUri example_target
   \<and> list_all (\<lambda>k. genCode 7 (\<lambda>k. 0) (0 + 7 * k) \<in> code ` set taken_rows) [0..<10]
   \<and> create example_isWebUri (\<lambda>k. 0) 9 taken_rows 0 (Some example_target) None
        = (Inl CodeGenerationExhausted, taken_rows, 70)
   \<and> genCode 7 (\<lambda>k. if k < 7 then 0 else 1) (0 + 7 * 0) \<in> code ` set taken_rows
   \<and> genCode 7 (\<lambda>k. if k < 7 then 0 else 1) (0 + 7 * 1) \<notin> code ` set taken_rows
   \<and> create example_isWebUri (\<lambda>k. if k < 7 then 0 else 1) 9 taken_rows 0 (Some example_target) None
        = (Inr (generated_row ''BBBBBBB''), taken_rows @ [generated_row ''BBBBBBB''], 14)"
proof -
  have h: "example_target \<noteq> []" "example_isWebUri example_target"
    by (simp_all add: example_target_def example_isWebUri_def)
  have a: "\<forall>k<10. genCode 7 (\<lambda>k. 0) (0 + 7 * k) \<in> code ` set taken_rows"
    by (simp add: genCode_const taken_rows_def)
  have b0: "genCode 7 (\<lambda>k. if k < 7 then 0 else 1) (0 + 7 * 0) = ''AAAAAAA''"
    by (simp add: genCode_def charAt_def chars_def upt_rec)
  have b1: "genCode 7 (\<lambda>k. if k < 7 then 0 else 1) (0 + 7 * 1) = ''BBBBBBB''"
    by (simp add: genCode_def charAt_def chars_def upt_rec)
  have c0: "genCode 7 (\<lambda>k. if k < 7 then 0 else 1) (0 + 7 * 0) \<in> code ` set taken_rows"
    unfolding b0 by (simp add: taken_rows_def)
  have c1: "genCode 7 (\<lambda>k. if k < 7 then 0 else 1) (0 + 7 * 1) \<notin> code ` set taken_rows"
    unfolding b1 by (simp add: taken_rows_def)
  have d: "\<forall>j<1. genCode 7 (\<lambda>k. if k < 7 then 0 else 1) (0 + 7 * j) \<in> code ` set taken_rows"
    using c0 by simp
  note t1 = create_generation_bounded [where t = example_target and isWebUri = example_isWebUri
      and rnd = "\<lambda>k. 0" and pos = 0 and rows = taken_rows and now = 9]
  note t2 = create_generation_bounded [where t = example_target and isWebUri = example_isWebUri
      and rnd = "\<lambda>k. if k < 7 then 0 else 1" and pos = 0 and rows = taken_rows and now = 9]
  have r1: "create example_isWebUri (\<lambda>k. 0) 9 taken_rows 0 (Some example_target) None
        = (Inl CodeGenerationExhausted, taken_rows, 70)"
    using t1 h a by simp
  have "(1::nat) < 10" by simp
  then have r2: "create example_isWebUri (\<lambda>k. if k < 7 then 0 else 1) 9 taken_rows 0
          (Some example_target) None
        = (Inr \<lparr>code = genCode 7 (\<lambda>k. if k < 7 then 0 else 1) (0 + 7 * 1),
                target = example_target, clicks = 0, created_at = 9, last_clicked = None\<rparr>,
           taken_rows @ [\<lparr>code = genCode 7 (\<lambda>k. if k < 7 then 0 else 1) (0 + 7 * 1),
                target = example_target, clicks = 0, created_at = 9, last_clicked = None\<rparr>],
           0 + 7 * (1 + 1))"
    using t2 h c1 d by blast
  have a': "list_all (\<lambda>k. genCode 7 (\<lambda>k. 0) (0 + 7 * k) \<in> code ` set taken_rows) [0..<10]"
    using a by (simp add: list_all_iff)
  show ?thesis
    using h a' c0 c1 r1 r2 unfolding b1 by (simp add: generated_row_def example_target_def)
qed

section \<open>The list parameters\<close>

text \<open>
  Claim C6, as amended. For every caller input the effective limit is at most 100; it is
  50 when the parameter is absent, unparsable or zero; for a value that parses to a
  positive integer it is the smaller of that integer and 100; so for every input that
  does not parse to a negative integer it lies between 1 and 100.
\<close>

theorem list_limit_upper_clamp:
  "list_limit v \<le> 100
   \<and> list_limit None = 50
   \<and> (parseInt v = None \<or> parseInt v = Some 0 \<longrightarrow> list_limit v = 50)
   \<and> (\<forall>n. parseInt v = Some n \<and> 0 < n \<longrightarrow> list_limit v = min 100 n)
   \<and> (\<forall>n. parseInt v = Some n \<and> 0 \<le> n \<longrightarrow> 1 \<le> list_limit v \<and> list_limit v \<le> 100)"
  by (auto simp: list_limit_def or_default_def parseInt_def split: option.splits)

text \<open>The limit computed for four inputs.\<close>

theorem list_limit_upper_clamp_witness:
  "parseInt (Some ''abc'') = None \<and> list_limit (Some ''abc'') = 50
   \<and> parseInt (Some ''0'') = Some 0 \<and> list_limit (Some ''0'') = 50
   \<and> parseInt (Some ''7'') = Some 7 \<and> list_limit (Some ''7'') = 7
   \<and> parseInt (Some ''500'') = Some 500 \<and> list_limit (Some ''500'') = 100"
  using parseInt_abc parseInt_0 parseInt_7 parseInt_500
    list_limit_upper_clamp [of "Some ''abc''"] list_limit_upper_clamp [of "Some ''0''"]
    list_limit_upper_clamp [of "Some ''7''"] list_limit_upper_clamp [of "Some ''500''"]
  by simp

text \<open>
  The query \<^verbatim>\<open>limit=-5\<close>: the parsed value is nonzero and below 100, so it is the
  effective limit, outside the range from 1 to 100.
\<close>

theorem list_limit_negative_counterexample:
  "list_limit (Some ''-5'') = - 5
   \<and> \<not> (1 \<le> list_limit (Some ''-5'') \<and> list_limit (Some ''-5'') \<le> 100)"
  by (simp add: list_limit_def or_default_def parseInt_minus5)

text \<open>
  Claim C7, as amended. The effective offset is 0 when the parameter is absent or
  unparsable. For a caller value that parses to a non-negative integer the effective
  offset is not negative, and when that integer is at most \<open>2 ^ 53\<close>, the range in which
  JavaScript holds every integer exactly, the effective offset is that integer.
\<close>

theorem list_offset_default:
  "list_offset None = 0
   \<and> (parseInt v = None \<longrightarrow> list_offset v = 0)
   \<and> (\<forall>n. parseInt v = Some n \<and> 0 \<le> n \<longrightarrow> 0 \<le> list_offset v)
   \<and> (\<forall>n. parseInt v = Some n \<and> 0 \<le> n \<and> n \<le> 2 ^ 53 \<longrightarrow> list_offset v = n)"
  by (auto simp: list_offset_def or_default_def parseInt_def split: option.splits)

text \<open>The offset computed for two inputs.\<close>

theorem list_offset_default_witness:
  "parseInt (Some ''abc'') = None \<and> list_offset (Some ''abc'') = 0
   \<and> parseInt (Some ''7'') = Some 7 \<and> list_offset (Some ''7'') = 7"
  using parseInt_abc parseInt_7
    list_offset_default [of "Some ''abc''"] list_offset_default [of "Some ''7''"]
  by simp

text \<open>The query \<^verbatim>\<open>offset=-3\<close>: the effective offset is \<open>-3\<close>, not 0.\<close>

theorem list_offset_negative_counterexample:
  "list_offset (Some ''-3'') = - 3
   \<and> \<not> (0 \<le> list_offset (Some ''-3'')) \<and> list_offset (Some ''-3'') \<noteq> 0"
  by (simp add: list_offset_def or_default_def parseInt_minus3)

section \<open>The metadata read\<close>

text \<open>
  Claim C8. For every table and every code the metadata read leaves the table as it is,
  so no field of any link changes, \<open>clicks\<close> and \<open>last_clicked\<close> included. It answers
  \<open>NotFound\<close> when no link has the code, and otherwise returns a stored link with that
  code, the first one the select yields.
\<close>

theorem getMetadata_pure_read:
  "snd (getMetadata rows c) = rows
   \<and> (c \<notin> code ` set rows \<longrightarrow> fst (getMetadata rows c) = Inl NotFound)
   \<and> (c \<in> code ` set rows \<longrightarrow>
        (\<exists>row. fst (getMetadata rows c) = Inr row \<and> row \<in> set rows \<and> code row = c
           \<and> select_code rows c ! 0 = row))"
proof (cases "select_code rows c")
  case Nil
  then show ?thesis using select_code_Nil_iff[of rows c] by (simp add: getMetadata_def)
next
  case (Cons row rest)
  then have "row \<in> set (select_code rows c)" by simp
  then have "row \<in> set rows \<and> code row = c" by (simp add: select_code_def)
  then show ?thesis using Cons select_code_Nil_iff[of rows c] by (auto simp: getMetadata_def)
qed

text \<open>The read run on the example table, for the stored code and for an unknown one.\<close>

theorem getMetadata_pure_read_witness:
  "''abc1234'' \<in> code ` set example_rows
   \<and> getMetadata example_rows ''abc1234'' = (Inr (example_rows ! 0), example_rows)
   \<and> ''nothere'' \<notin> code ` set example_rows
   \<and> getMetadata example_rows ''nothere'' = (Inl NotFound, example_rows)"
proof -
  have m1: "''abc1234'' \<in> code ` set example_rows"
    and m2: "''nothere'' \<notin> code ` set example_rows"
    by (simp_all add: example_rows_def)
  have s: "select_code example_rows ''abc1234'' = example_rows"
    by (simp add: select_code_def example_rows_def)
  show ?thesis
    using m1 m2 s getMetadata_pure_read [of example_rows "''abc1234''"]
      getMetadata_pure_read [of example_rows "''nothere''"]
    by (auto simp: prod_eq_iff)
qed

section \<open>Create on failure and on an empty code\<close>

text \<open>
  Claim C9. Whenever create answers with an error, whichever it is, the table after the
  call is the table before it: nothing is inserted and no link is modified.
\<close>

theorem create_error_store_unchanged:
  assumes "create isWebUri rnd now rows pos tgt cd = (Inl e, rows', pos')"
  shows "rows' = rows"
proof (cases "truthy tgt \<and> isWebUri (the tgt) \<and> \<not> (truthy cd \<and> \<not> CODE_RE_test (the cd))")
  case False
  then show ?thesis using assms by (auto simp: create_def split: if_splits)
next
  case ok: True
  show ?thesis
  proof (cases "truthy cd")
    case True
    then show ?thesis using assms ok
      by (auto simp: create_def split: if_splits dest: insert_and_respond_Inl)
  next
    case False
    obtain fc at p where g: "gen_loop rows rnd pos 0 = (fc, at, p)"
      by (cases "gen_loop rows rnd pos 0") auto
    show ?thesis using assms ok False g
      by (auto simp: create_def split: if_splits dest: insert_and_respond_Inl)
  qed
qed

text \<open>
  Two failing runs: the generation bound is exhausted on a table that holds every
  candidate, and a target is refused by the URL check.
\<close>

theorem create_error_store_unchanged_witness:
  "create example_isWebUri (\<lambda>k. 0) 9 taken_rows 0 (Some example_target) None
        = (Inl CodeGenerationExhausted, taken_rows, 70)
   \<and> create example_isWebUri (\<lambda>k. 0) 9 taken_rows 0 (Some ''ftp://x'') None
        = (Inl InvalidTarget, taken_rows, 0)"
proof -
  have h: "example_target \<noteq> []" "example_isWebUri example_target"
    by (simp_all add: example_target_def example_isWebUri_def)
  have "\<forall>j<10. select_code taken_rows (genCode 7 (\<lambda>k. 0) (0 + 7 * j)) \<noteq> []"
    by (simp add: genCode_const taken_rows_def select_code_def)
  then have g: "gen_loop taken_rows (\<lambda>k. 0) 0 0
        = (genCode 7 (\<lambda>k. 0) (0 + 7 * (10 - 1)), maxAttempts, 0 + 7 * 10)"
    using gen_loop_miss[of 0 10 taken_rows "\<lambda>k. 0" 0] by (simp add: maxAttempts_def)
  obtain rows' where e: "create example_isWebUri (\<lambda>k. 0) 9 taken_rows 0 (Some example_target) None
        = (Inl CodeGenerationExhausted, rows', 70)"
    using h g by (simp add: create_generated)
  obtain rows2 p2 where i: "create example_isWebUri (\<lambda>k. 0) 9 taken_rows 0 (Some ''ftp://x'') None
        = (Inl InvalidTarget, rows2, p2)" and p2: "p2 = 0"
    by (simp add: create_def truthy_def example_isWebUri_def)
  show ?thesis
    using e i p2 create_error_store_unchanged [OF e] create_error_store_unchanged [OF i] by simp
qed

text \<open>
  Claim C10. Create with the empty string as requested code behaves exactly as create
  with no requested code: although the empty string does not match the pattern, the
  answer is never \<open>InvalidCode\<close>, and when the call succeeds the code of the new link is
  a generated one, of 7 characters.
\<close>

theorem create_empty_code_generates:
  "create isWebUri rnd now rows pos tgt (Some '''') = create isWebUri rnd now rows pos tgt None
   \<and> fst (create isWebUri rnd now rows pos tgt (Some '''')) \<noteq> Inl InvalidCode
   \<and> \<not> CODE_RE_test ''''
   \<and> (draws_in_range rnd \<longrightarrow>
        (\<forall>row rows' pos'. create isWebUri rnd now rows pos tgt (Some '''') = (Inr row, rows', pos')
           \<longrightarrow> length (code row) = 7 \<and> (\<exists>q. code row = genCode 7 rnd q)))"
proof -
  have a: "create isWebUri rnd now rows pos tgt (Some '''') = create isWebUri rnd now rows pos tgt None"
    by (rule create_empty_code)
  have b: "fst (create isWebUri rnd now rows pos tgt None) \<noteq> Inl InvalidCode"
  proof (cases "gen_loop rows rnd pos 0")
    case (fields fc at p)
    then show ?thesis
      by (auto simp: create_def truthy_def insert_and_respond_def split: if_splits option.splits)
  qed
  have c: "\<not> CODE_RE_test ''''" by (simp add: CODE_RE_test_def)
  have d: "length (code row) = 7 \<and> (\<exists>q. code row = genCode 7 rnd q)"
    if dr: "draws_in_range rnd"
      and cr: "create isWebUri rnd now rows pos tgt None = (Inr row, rows', pos')"
    for row rows' pos'
  proof -
    obtain q where "code row = genCode 7 rnd q" using create_None_Inr[OF cr] by auto
    then show ?thesis using genCode_length[OF dr, of 7 q] by auto
  qed
  show ?thesis using a b c d by auto
qed

text \<open>Create with the empty code on the example table, every draw being 0.\<close>

theorem create_empty_code_generates_witness:
  "draws_in_range (\<lambda>k. 0)
   \<and> create example_isWebUri (\<lambda>k. 0) 9 example_rows 0 (Some example_target) (Some '''')
        = (Inr (generated_row ''AAAAAAA''), example_rows @ [generated_row ''AAAAAAA''], 7)
   \<and> length (code (generated_row ''AAAAAAA'')) = 7"
proof -
  have h: "example_target \<noteq> []" "example_isWebUri example_target"
    by (simp_all add: example_target_def example_isWebUri_def)
  have f: "select_code example_rows ''AAAAAAA'' = []"
    by (simp add: select_code_def example_rows_def)
  have g: "gen_loop example_rows (\<lambda>k. 0) 0 0 = (''AAAAAAA'', 0, 7)"
    using f by (simp add: gen_loop.simps[of example_rows "\<lambda>k. 0" 0 0] genCode_const)
  have e: "create example_isWebUri (\<lambda>k. 0) 9 example_rows 0 (Some example_target) None
        = (Inr (generated_row ''AAAAAAA''), example_rows @ [generated_row ''AAAAAAA''], 7)"
    using h f g
    by (simp add: create_generated maxAttempts_def insert_link_fresh generated_row_def
        example_target_def)
  note t = create_empty_code_generates [of example_isWebUri "\<lambda>k. 0" 9 example_rows 0
      "Some example_target"]
  have e': "create example_isWebUri (\<lambda>k. 0) 9 example_rows 0 (Some example_target) (Some '''')
        = (Inr (generated_row ''AAAAAAA''), example_rows @ [generated_row ''AAAAAAA''], 7)"
    using t e by simp
  have "length (code (generated_row ''AAAAAAA'')) = 7"
    using t draws_const e' by blast
  then show ?thesis using draws_const e' by simp
qed

end
